theory Spec2Isabelle
  imports Main "HOL-Library.Sublist"
begin

section \<open>The movie client (script.js)\<close>

text \<open>
  A shallow embedding of \<^verbatim>\<open>src/script.js\<close>, a browser client that keeps a cached copy
  of a remote movie collection, renders it, filters it and sends create, update and
  delete requests. Every handler of the script is a function on an explicit
  application state. A \<^verbatim>\<open>fetch\<close> call appends a request to the list of requests sent;
  the promise chain hanging on it is a second function, applied to the way the request
  settles. The answers of the blocking dialogs (\<^verbatim>\<open>confirm\<close>, \<^verbatim>\<open>prompt\<close>) are arguments
  of the handler that opens them.
\<close>

subsection \<open>Values and built-ins of the language\<close>

text \<open>
  Strings are lists of 8-bit characters. The three characters that cannot be written
  inside a string literal here get names.
\<close>

abbreviation squote :: char where "squote \<equiv> CHR 0x27"
abbreviation dquote :: char where "dquote \<equiv> CHR 0x22"
abbreviation newline :: char where "newline \<equiv> CHR 0x0A"

text \<open>A number is an integer or \<^verbatim>\<open>NaN\<close>; the script builds no other number.\<close>

datatype jsnum = NaN | Num int

datatype jsval = JString string | JNumber jsnum

fun isNaN :: "jsnum \<Rightarrow> bool" where
  "isNaN NaN = True"
| "isNaN (Num _) = False"

text \<open>
  Decimal rendering, as a template literal renders an integer (the language switches to
  exponent notation only from \<open>10\<^sup>2\<^sup>1\<close> on, far from any year, identifier or status).
\<close>

function show_nat :: "nat \<Rightarrow> string" where
  "show_nat n =
     (if n < 10 then [''0123456789'' ! n]
      else show_nat (n div 10) @ [''0123456789'' ! (n mod 10)])"
  by pat_completeness auto
termination
  by (relation "measure id") auto

declare show_nat.simps [simp del]

definition show_int :: "int \<Rightarrow> string" where
  "show_int i = (if i < 0 then CHR ''-'' # show_nat (nat (- i)) else show_nat (nat i))"

fun numToString :: "jsnum \<Rightarrow> string" where
  "numToString NaN = ''NaN''"
| "numToString (Num i) = show_int i"

fun toString :: "jsval \<Rightarrow> string" where
  "toString (JString s) = s"
| "toString (JNumber n) = numToString n"

text \<open>
  \<^verbatim>\<open>String.prototype.toLowerCase\<close>, on the letters A to Z; every other character is
  left as it is.
\<close>

definition toLowerChar :: "char \<Rightarrow> char" where
  "toLowerChar c =
     (case map_of (zip ''ABCDEFGHIJKLMNOPQRSTUVWXYZ'' ''abcdefghijklmnopqrstuvwxyz'') c of
        None \<Rightarrow> c
      | Some l \<Rightarrow> l)"

definition toLowerCase :: "string \<Rightarrow> string" where
  "toLowerCase s = map toLowerChar s"

text \<open>
  \<^verbatim>\<open>s.includes(t)\<close>: \<open>t\<close> occurs in \<open>s\<close> at some position, found by trying every
  position from the left.
\<close>

fun includes_str :: "string \<Rightarrow> string \<Rightarrow> bool" where
  "includes_str [] t = (t = [])"
| "includes_str (c # s) t = (prefix t (c # s) \<or> includes_str s t)"

text \<open>
  \<^verbatim>\<open>parseInt(string)\<close> with no radix: leading white space is skipped, one sign is read,
  a prefix \<^verbatim>\<open>0x\<close> switches to base 16, and the longest run of digits is the value;
  with no digit at all the result is \<^verbatim>\<open>NaN\<close>. Whatever follows the digits is ignored.
  Of the white space of the language only the ASCII characters are skipped, and the
  value is an exact integer, where the language rounds to a double.
\<close>

definition isWhiteSpace :: "char \<Rightarrow> bool" where
  "isWhiteSpace c = (c \<in> set [CHR 0x09, CHR 0x0A, CHR 0x0B, CHR 0x0C, CHR 0x0D, CHR 0x20])"

definition digitValue :: "char \<Rightarrow> nat option" where
  "digitValue c =
     map_of (zip ''0123456789abcdefABCDEF''
                 [0, 1, 2, 3, 4, 5, 6, 7, 8, 9, 10, 11, 12, 13, 14, 15, 10, 11, 12, 13, 14, 15]) c"

definition isDigitOf :: "nat \<Rightarrow> char \<Rightarrow> bool" where
  "isDigitOf radix c = (case digitValue c of None \<Rightarrow> False | Some d \<Rightarrow> d < radix)"

definition digitsValue :: "nat \<Rightarrow> string \<Rightarrow> nat" where
  "digitsValue radix ds =
     foldl (\<lambda>a c. a * radix + (case digitValue c of None \<Rightarrow> 0 | Some d \<Rightarrow> d)) 0 ds"

definition parseInt :: "string \<Rightarrow> jsnum" where
  "parseInt string =
     (let s = dropWhile isWhiteSpace string;
          (sign, s1) = (case s of
                          [] \<Rightarrow> (1, s)
                        | c # r \<Rightarrow> if c = CHR ''-'' then (- 1, r)
                                   else if c = CHR ''+'' then (1, r) else (1, s));
          (radix, s2) = (if prefix ''0x'' s1 \<or> prefix ''0X'' s1 then (16, drop 2 s1)
                         else (10, s1));
          ds = takeWhile (isDigitOf radix) s2
      in if ds = [] then NaN else Num (sign * int (digitsValue radix ds)))"

subsection \<open>Data model\<close>

text \<open>
  A movie as the server returns it. The script reads the four properties \<^verbatim>\<open>id\<close>,
  \<^verbatim>\<open>title\<close>, \<^verbatim>\<open>genre\<close> and \<^verbatim>\<open>year\<close>; the first is called \<open>movie_id\<close> here.
  The script declares no types: title and genre are strings and the year is an integer,
  as the collection's contract has them, and the identifier is an integer, as in every
  address the script builds from it.
\<close>

record movie =
  movie_id :: int
  title :: string
  genre :: string
  year :: int

text \<open>The object a create or an update sends: no identifier, and a year that may be \<^verbatim>\<open>NaN\<close>.\<close>

record movie_data =
  data_title :: string
  data_genre :: string
  data_year :: jsnum

subsection \<open>The page\<close>

text \<open>
  The content of the element \<^verbatim>\<open>movie-list\<close> is a list of nodes: markup installed by
  assigning \<^verbatim>\<open>innerHTML\<close>, or an element made by \<^verbatim>\<open>createElement\<close> and appended.
\<close>

record element =
  tagName :: string
  classList :: "string list"
  innerHTML :: string

datatype dom_node = Parsed string | Created element

record form_fields =
  title_value :: string
  genre_value :: string
  year_value :: string

subsection \<open>The network\<close>

datatype http_method = GET | POST | PUT | DELETE

record request =
  req_method :: http_method
  url :: string
  headers :: "(string \<times> string) list"
  body :: "movie_data option"

text \<open>
  A response carries its status and what \<^verbatim>\<open>response.json()\<close> yields: \<open>None\<close> when the
  body is not JSON and that promise rejects. \<^verbatim>\<open>response.ok\<close> holds for the statuses
  200 to 299. A \<^verbatim>\<open>fetch\<close> settles either rejected (no response at all) or with a
  response.
\<close>

record 'a response =
  status :: nat
  json :: "'a option"

definition ok :: "'a response \<Rightarrow> bool" where
  "ok r = (200 \<le> status r \<and> status r \<le> 299)"

datatype 'a settled = Rejected | Fulfilled "'a response"

text \<open>What reaches a \<^verbatim>\<open>catch\<close>: the rejection of \<^verbatim>\<open>fetch\<close>, a thrown \<^verbatim>\<open>Error\<close>, or the
  rejection of \<^verbatim>\<open>response.json()\<close>.\<close>

datatype js_error = FetchRejected | Error string | JsonRejected

subsection \<open>Application state\<close>

record app =
  allMovies :: "movie list"
  movieListDiv :: "dom_node list"
  searchInput :: string
  form :: form_fields
  form_defaults :: form_fields
  console :: "(string \<times> js_error) list"
  alerts :: "string list"
  network :: "request list"

definition API_URL :: string where
  "API_URL = ''http://localhost:3000/movies''"

definition console_error :: "string \<Rightarrow> js_error \<Rightarrow> app \<Rightarrow> app" where
  "console_error msg e s = s\<lparr>console := console s @ [(msg, e)]\<rparr>"

definition alert :: "string \<Rightarrow> app \<Rightarrow> app" where
  "alert msg s = s\<lparr>alerts := alerts s @ [msg]\<rparr>"

definition fetch :: "request \<Rightarrow> app \<Rightarrow> app" where
  "fetch req s = s\<lparr>network := network s @ [req]\<rparr>"

text \<open>Assigning \<^verbatim>\<open>innerHTML\<close> of the list element replaces all its content.\<close>

definition set_innerHTML :: "string \<Rightarrow> dom_node list" where
  "set_innerHTML html = (if html = [] then [] else [Parsed html])"

definition appendChild :: "element \<Rightarrow> app \<Rightarrow> app" where
  "appendChild e s = s\<lparr>movieListDiv := movieListDiv s @ [Created e]\<rparr>"

text \<open>\<^verbatim>\<open>form.reset()\<close> gives every field the default value of the page's markup.\<close>

definition form_reset :: "app \<Rightarrow> app" where
  "form_reset s = s\<lparr>form := form_defaults s\<rparr>"

subsection \<open>Utility functions\<close>

fun escapeQuotes :: "jsval \<Rightarrow> jsval" where
  "escapeQuotes (JString str) =
     JString (concat (map (\<lambda>c. if c = squote then ''&#39;'' else [c]) str))"
| "escapeQuotes v = v"

subsection \<open>Read\<close>

abbreviation indent :: "nat \<Rightarrow> string" where
  "indent n \<equiv> replicate n (CHR 0x20)"

definition placeholder :: string where
  "placeholder = ''<p>No movies found matching your criteria.</p>''"

text \<open>The template literal of \<^verbatim>\<open>renderMovies\<close>, line by line.\<close>

definition rowHtml :: "movie \<Rightarrow> string" where
  "rowHtml movie =
     (let safeTitle = escapeQuotes (JString (title movie));
          safeGenre = escapeQuotes (JString (genre movie))
      in [newline]
         @ indent 12 @ ''<p><strong>'' @ title movie @ ''</strong> ('' @ show_int (year movie)
           @ '') - '' @ genre movie @ ''</p>'' @ [newline]
         @ indent 12 @ ''<button onclick='' @ [dquote] @ ''editMoviePrompt(''
           @ show_int (movie_id movie) @ '', '' @ [squote] @ toString safeTitle @ [squote]
           @ '', '' @ show_int (year movie) @ '','' @ [newline]
         @ indent 16 @ [squote] @ toString safeGenre @ [squote] @ '')'' @ [dquote]
           @ ''>Edit</button>'' @ [newline]
         @ indent 12 @ ''<button onclick='' @ [dquote] @ ''deleteMovie(''
           @ show_int (movie_id movie) @ '')'' @ [dquote] @ ''>Delete</button>'' @ [newline]
         @ indent 8)"

definition movieElement :: "movie \<Rightarrow> element" where
  "movieElement movie =
     \<lparr>tagName = ''div'', classList = [''movie-item''], innerHTML = rowHtml movie\<rparr>"

definition renderMovies :: "movie list \<Rightarrow> app \<Rightarrow> app" where
  "renderMovies moviesToDisplay s =
     (let s1 = s\<lparr>movieListDiv := set_innerHTML ''''\<rparr>
      in if length moviesToDisplay = 0 then s1\<lparr>movieListDiv := set_innerHTML placeholder\<rparr>
         else foldl (\<lambda>st movie. appendChild (movieElement movie) st) s1 moviesToDisplay)"

definition fetchMovies :: "app \<Rightarrow> app" where
  "fetchMovies s = fetch \<lparr>req_method = GET, url = API_URL, headers = [], body = None\<rparr> s"

definition fetchMovies_settled :: "movie list settled \<Rightarrow> app \<Rightarrow> app" where
  "fetchMovies_settled outcome s =
     (case outcome of
        Rejected \<Rightarrow> console_error ''Error fetching movies:'' FetchRejected s
      | Fulfilled response \<Rightarrow>
          if \<not> ok response
          then console_error ''Error fetching movies:''
                 (Error (''HTTP error! status: '' @ show_nat (status response))) s
          else (case json response of
                  None \<Rightarrow> console_error ''Error fetching movies:'' JsonRejected s
                | Some movies \<Rightarrow>
                    (let s1 = s\<lparr>allMovies := movies\<rparr> in renderMovies (allMovies s1) s1)))"

text \<open>The listener of \<^verbatim>\<open>DOMContentLoaded\<close>.\<close>

definition initial_load :: "app \<Rightarrow> app" where
  "initial_load s = fetchMovies s"

subsection \<open>Search\<close>

definition filterMovies :: "string \<Rightarrow> movie list \<Rightarrow> movie list" where
  "filterMovies searchTerm movies =
     filter (\<lambda>movie.
        let titleMatch = includes_str (toLowerCase (title movie)) searchTerm;
            genreMatch = includes_str (toLowerCase (genre movie)) searchTerm
        in titleMatch \<or> genreMatch) movies"

definition search_input :: "app \<Rightarrow> app" where
  "search_input s =
     (let searchTerm = toLowerCase (searchInput s);
          filteredMovies = filterMovies searchTerm (allMovies s)
      in renderMovies filteredMovies s)"

subsection \<open>Create\<close>

definition json_headers :: "(string \<times> string) list" where
  "json_headers = [(''Content-Type'', ''application/json'')]"

definition form_submit :: "app \<Rightarrow> app" where
  "form_submit s =
     (let title = title_value (form s);
          genre = genre_value (form s);
          yearInput = year_value (form s)
      in if title = [] \<or> genre = [] \<or> yearInput = []
         then alert ''Please fill in all fields.'' s
         else (let newMovie = \<lparr>data_title = title, data_genre = genre,
                                data_year = parseInt yearInput\<rparr>
               in fetch \<lparr>req_method = POST, url = API_URL, headers = json_headers,
                         body = Some newMovie\<rparr> s))"

definition form_submit_settled :: "'a settled \<Rightarrow> app \<Rightarrow> app" where
  "form_submit_settled outcome s =
     (case outcome of
        Rejected \<Rightarrow> console_error ''Error adding movie:'' FetchRejected s
      | Fulfilled response \<Rightarrow>
          if \<not> ok response
          then console_error ''Error adding movie:'' (Error ''Failed to add movie'') s
          else (case json response of
                  None \<Rightarrow> console_error ''Error adding movie:'' JsonRejected s
                | Some _ \<Rightarrow> fetchMovies (form_reset s)))"

subsection \<open>Update\<close>

definition updateMovie :: "int \<Rightarrow> movie_data \<Rightarrow> app \<Rightarrow> app" where
  "updateMovie movieId updatedMovieData s =
     fetch \<lparr>req_method = PUT, url = API_URL @ ''/'' @ show_int movieId, headers = json_headers,
            body = Some updatedMovieData\<rparr> s"

definition updateMovie_settled :: "'a settled \<Rightarrow> app \<Rightarrow> app" where
  "updateMovie_settled outcome s =
     (case outcome of
        Rejected \<Rightarrow> console_error ''Error updating movie:'' FetchRejected s
      | Fulfilled response \<Rightarrow>
          if \<not> ok response
          then console_error ''Error updating movie:'' (Error ''Failed to update movie'') s
          else (case json response of
                  None \<Rightarrow> console_error ''Error updating movie:'' JsonRejected s
                | Some _ \<Rightarrow> fetchMovies s))"

text \<open>
  The three prompts are shown one after the other whatever the earlier answers were;
  an answer is \<open>None\<close> when the prompt was cancelled. The current values only pre-fill
  the prompts.
\<close>

definition editMoviePrompt ::
  "int \<Rightarrow> string \<Rightarrow> int \<Rightarrow> string \<Rightarrow> string option \<Rightarrow> string option \<Rightarrow> string option
     \<Rightarrow> app \<Rightarrow> app" where
  "editMoviePrompt ident currentTitle currentYear currentGenre newTitle newYearStr newGenre s =
     (case (newTitle, newYearStr, newGenre) of
        (Some t, Some y, Some g) \<Rightarrow>
          (let newYear = parseInt y
           in if isNaN newYear then alert ''Year must be a number.'' s
              else updateMovie ident \<lparr>data_title = t, data_genre = g, data_year = newYear\<rparr> s)
      | _ \<Rightarrow> s)"

subsection \<open>Delete\<close>

text \<open>The second argument is the answer to the \<^verbatim>\<open>confirm\<close> dialog.\<close>

definition deleteMovie :: "int \<Rightarrow> bool \<Rightarrow> app \<Rightarrow> app" where
  "deleteMovie movieId confirmed s =
     (if \<not> confirmed then s
      else fetch \<lparr>req_method = DELETE, url = API_URL @ ''/'' @ show_int movieId, headers = [],
                  body = None\<rparr> s)"

definition deleteMovie_settled :: "'a settled \<Rightarrow> app \<Rightarrow> app" where
  "deleteMovie_settled outcome s =
     (case outcome of
        Rejected \<Rightarrow> console_error ''Error deleting movie:'' FetchRejected s
      | Fulfilled response \<Rightarrow>
          if \<not> ok response
          then console_error ''Error deleting movie:'' (Error ''Failed to delete movie'') s
          else fetchMovies s)"

subsection \<open>Notions used to state the properties\<close>

text \<open>The rows of a listing: the elements of class \<^verbatim>\<open>movie-item\<close> among its nodes.\<close>

definition rows :: "dom_node list \<Rightarrow> element list" where
  "rows nodes = [e. Created e \<leftarrow> nodes, ''movie-item'' \<in> set (classList e)]"

text \<open>
  The visible text of a row, and the values of the \<^verbatim>\<open>onclick\<close> attributes of its two
  buttons (the text between the double quotes that the template writes).
\<close>

definition rowText :: "movie \<Rightarrow> string" where
  "rowText m =
     ''<strong>'' @ title m @ ''</strong> ('' @ show_int (year m) @ '') - '' @ genre m"

definition editCall :: "movie \<Rightarrow> string" where
  "editCall m =
     ''editMoviePrompt('' @ show_int (movie_id m) @ '', '' @ [squote]
     @ toString (escapeQuotes (JString (title m))) @ [squote] @ '', '' @ show_int (year m)
     @ '','' @ [newline] @ indent 16 @ [squote]
     @ toString (escapeQuotes (JString (genre m))) @ [squote] @ '')''"

definition deleteCall :: "movie \<Rightarrow> string" where
  "deleteCall m = ''deleteMovie('' @ show_int (movie_id m) @ '')''"

definition onclick_button :: "string \<Rightarrow> string \<Rightarrow> string" where
  "onclick_button call label =
     ''<button onclick='' @ [dquote] @ call @ [dquote] @ ''>'' @ label @ ''</button>''"

text \<open>
  How the browser reads markup assigned to \<^verbatim>\<open>innerHTML\<close>: the tokenizer of the HTML
  standard, as a state machine that takes one character at a time and emits character,
  tag and comment tokens. Only the part that plain markup needs is covered: text, start
  and end tags, attributes with double-quoted values, and comments. On anything else
  (a character reference, a self-closing tag, another form of attribute, an ill-formed
  tag, a \<^verbatim>\<open>NUL\<close> or a carriage return) the reading is \<open>None\<close>, so that nothing is
  said about such markup. Inside a comment the standard has extra states after a
  \<^verbatim>\<open><\<close>; they only report errors and give the same comment, so \<^verbatim>\<open><\<close> is an ordinary
  character of a comment here.
\<close>

datatype html_token =
    Character char
  | StartTag string "(string \<times> string) list"
  | EndTag string
  | Comment string

datatype tokenizer_state =
    Data
  | TagOpen
  | EndTagOpen
  | TagName bool string
  | BeforeAttributeName string "(string \<times> string) list"
  | AttributeName string "(string \<times> string) list" string
  | BeforeAttributeValue string "(string \<times> string) list" string
  | AttributeValueDQ string "(string \<times> string) list" string string
  | AfterAttributeValue string "(string \<times> string) list"
  | MarkupDeclarationOpen
  | MarkupDeclarationDash
  | CommentStart
  | CommentStartDash
  | InComment string
  | CommentEndDash string
  | CommentEnd string
  | CommentEndBang string

definition html_space :: "char \<Rightarrow> bool" where
  "html_space c = (c \<in> set [CHR 0x09, CHR 0x0A, CHR 0x0C, CHR 0x20])"

definition ascii_alpha :: "char \<Rightarrow> bool" where
  "ascii_alpha c =
     (c \<in> set ''abcdefghijklmnopqrstuvwxyzABCDEFGHIJKLMNOPQRSTUVWXYZ'')"

definition data_step :: "char \<Rightarrow> (html_token list \<times> tokenizer_state) option" where
  "data_step c =
     (if c = CHR ''<'' then Some ([], TagOpen)
      else if c = CHR ''&'' then None
      else Some ([Character c], Data))"

definition comment_step :: "string \<Rightarrow> char \<Rightarrow> (html_token list \<times> tokenizer_state) option" where
  "comment_step text c =
     (if c = CHR ''-'' then Some ([], CommentEndDash text)
      else Some ([], InComment (text @ [c])))"

definition attribute_name_step ::
  "string \<Rightarrow> (string \<times> string) list \<Rightarrow> string \<Rightarrow> char
     \<Rightarrow> (html_token list \<times> tokenizer_state) option" where
  "attribute_name_step tag attrs name c =
     (if html_space c \<or> c = CHR ''/'' \<or> c = dquote \<or> c = squote \<or> c = CHR ''<'' then None
      else if c = CHR ''='' \<or> c = CHR ''>'' then
        (if name = [] \<or> name \<in> set (map fst attrs) then None
         else if c = CHR ''='' then Some ([], BeforeAttributeValue tag attrs name)
         else Some ([StartTag tag (attrs @ [(name, [])])], Data))
      else Some ([], AttributeName tag attrs (name @ [toLowerChar c])))"

fun step :: "tokenizer_state \<Rightarrow> char \<Rightarrow> (html_token list \<times> tokenizer_state) option" where
  "step Data c = data_step c"
| "step TagOpen c =
     (if c = CHR ''!'' then Some ([], MarkupDeclarationOpen)
      else if c = CHR ''/'' then Some ([], EndTagOpen)
      else if ascii_alpha c then Some ([], TagName False [toLowerChar c])
      else if c = CHR ''?'' then None
      else (case data_step c of
              None \<Rightarrow> None
            | Some (tokens, st) \<Rightarrow> Some (Character (CHR ''<'') # tokens, st)))"
| "step EndTagOpen c =
     (if ascii_alpha c then Some ([], TagName True [toLowerChar c]) else None)"
| "step (TagName closing tag) c =
     (if html_space c then (if closing then None else Some ([], BeforeAttributeName tag []))
      else if c = CHR ''/'' then None
      else if c = CHR ''>'' then Some ([if closing then EndTag tag else StartTag tag []], Data)
      else Some ([], TagName closing (tag @ [toLowerChar c])))"
| "step (BeforeAttributeName tag attrs) c =
     (if html_space c then Some ([], BeforeAttributeName tag attrs)
      else if c = CHR ''>'' then Some ([StartTag tag attrs], Data)
      else if c = CHR ''/'' \<or> c = CHR ''='' then None
      else attribute_name_step tag attrs [] c)"
| "step (AttributeName tag attrs name) c = attribute_name_step tag attrs name c"
| "step (BeforeAttributeValue tag attrs name) c =
     (if html_space c then Some ([], BeforeAttributeValue tag attrs name)
      else if c = dquote then Some ([], AttributeValueDQ tag attrs name [])
      else None)"
| "step (AttributeValueDQ tag attrs name val) c =
     (if c = dquote then Some ([], AfterAttributeValue tag (attrs @ [(name, val)]))
      else if c = CHR ''&'' then None
      else Some ([], AttributeValueDQ tag attrs name (val @ [c])))"
| "step (AfterAttributeValue tag attrs) c =
     (if html_space c then Some ([], BeforeAttributeName tag attrs)
      else if c = CHR ''>'' then Some ([StartTag tag attrs], Data)
      else None)"
| "step MarkupDeclarationOpen c =
     (if c = CHR ''-'' then Some ([], MarkupDeclarationDash) else None)"
| "step MarkupDeclarationDash c =
     (if c = CHR ''-'' then Some ([], CommentStart) else None)"
| "step CommentStart c =
     (if c = CHR ''-'' then Some ([], CommentStartDash)
      else if c = CHR ''>'' then Some ([Comment []], Data)
      else comment_step [] c)"
| "step CommentStartDash c =
     (if c = CHR ''-'' then Some ([], CommentEnd [])
      else if c = CHR ''>'' then Some ([Comment []], Data)
      else comment_step ''-'' c)"
| "step (InComment text) c = comment_step text c"
| "step (CommentEndDash text) c =
     (if c = CHR ''-'' then Some ([], CommentEnd text)
      else comment_step (text @ ''-'') c)"
| "step (CommentEnd text) c =
     (if c = CHR ''>'' then Some ([Comment text], Data)
      else if c = CHR ''!'' then Some ([], CommentEndBang text)
      else if c = CHR ''-'' then Some ([], CommentEnd (text @ ''-''))
      else comment_step (text @ ''--'') c)"
| "step (CommentEndBang text) c =
     (if c = CHR ''-'' then Some ([], CommentEndDash (text @ ''--!''))
      else if c = CHR ''>'' then Some ([Comment text], Data)
      else comment_step (text @ ''--!'') c)"

text \<open>At the end of the input an open comment is emitted and an open tag is dropped.\<close>

fun end_of_input :: "tokenizer_state \<Rightarrow> html_token list option" where
  "end_of_input Data = Some []"
| "end_of_input TagOpen = Some [Character (CHR ''<'')]"
| "end_of_input EndTagOpen = Some [Character (CHR ''<''), Character (CHR ''/'')]"
| "end_of_input MarkupDeclarationOpen = None"
| "end_of_input MarkupDeclarationDash = None"
| "end_of_input CommentStart = Some [Comment []]"
| "end_of_input CommentStartDash = Some [Comment []]"
| "end_of_input (InComment text) = Some [Comment text]"
| "end_of_input (CommentEndDash text) = Some [Comment text]"
| "end_of_input (CommentEnd text) = Some [Comment text]"
| "end_of_input (CommentEndBang text) = Some [Comment text]"
| "end_of_input _ = Some []"

fun tokenize :: "tokenizer_state \<Rightarrow> string \<Rightarrow> html_token list option" where
  "tokenize st [] = end_of_input st"
| "tokenize st (c # cs) =
     (case step st c of
        None \<Rightarrow> None
      | Some (tokens, st') \<Rightarrow> map_option (\<lambda>rest. tokens @ rest) (tokenize st' cs))"

text \<open>
  After the start tag of one of the elements below the browser reads what follows as raw
  text, not as markup; such markup is not covered either.
\<close>

definition raw_text_element :: "string \<Rightarrow> bool" where
  "raw_text_element tag =
     (tag \<in> set [''script'', ''style'', ''textarea'', ''title'', ''xmp'', ''iframe'', ''noembed'',
                   ''noframes'', ''noscript'', ''plaintext''])"

fun covered_token :: "html_token \<Rightarrow> bool" where
  "covered_token (StartTag tag attrs) = (\<not> raw_text_element tag)"
| "covered_token _ = True"

definition parse_markup :: "string \<Rightarrow> html_token list option" where
  "parse_markup html =
     (if CHR 0x00 \<in> set html \<or> CHR 0x0D \<in> set html then None
      else (case tokenize Data html of
              None \<Rightarrow> None
            | Some tokens \<Rightarrow> if list_all covered_token tokens then Some tokens else None))"

text \<open>
  What the markup of a row has to be read as for the row to show a movie: the text of
  the paragraph is the title, the year and the genre, and the two buttons carry the
  calls \<^verbatim>\<open>editMoviePrompt(id, 'title', year, 'genre')\<close> and \<^verbatim>\<open>deleteMovie(id)\<close>.
\<close>

definition editScript :: "movie \<Rightarrow> string" where
  "editScript m =
     ''editMoviePrompt('' @ show_int (movie_id m) @ '', '' @ [squote] @ title m @ [squote]
     @ '', '' @ show_int (year m) @ '','' @ [newline] @ indent 16 @ [squote] @ genre m
     @ [squote] @ '')''"

definition row_tokens :: "movie \<Rightarrow> html_token list" where
  "row_tokens m =
     map Character (newline # indent 12)
     @ [StartTag ''p'' [], StartTag ''strong'' []] @ map Character (title m)
     @ [EndTag ''strong'']
     @ map Character ('' ('' @ show_int (year m) @ '') - '' @ genre m) @ [EndTag ''p'']
     @ map Character (newline # indent 12)
     @ [StartTag ''button'' [(''onclick'', editScript m)]] @ map Character ''Edit''
     @ [EndTag ''button'']
     @ map Character (newline # indent 12)
     @ [StartTag ''button'' [(''onclick'', deleteCall m)]] @ map Character ''Delete''
     @ [EndTag ''button'']
     @ map Character (newline # indent 8)"

definition shows_movie :: "movie \<Rightarrow> element \<Rightarrow> bool" where
  "shows_movie m e =
     (tagName e = ''div'' \<and> classList e = [''movie-item'']
      \<and> parse_markup (innerHTML e) = Some (row_tokens m))"

text \<open>
  Plain text: printable characters other than the ones that mean something to the
  markup (\<^verbatim>\<open><\<close>, \<^verbatim>\<open>&\<close>, the double quote) or to the string literal of the Edit call
  (the apostrophe, the backslash).
\<close>

definition plain_char :: "char \<Rightarrow> bool" where
  "plain_char c =
     ((32 :: nat) \<le> of_char c
      \<and> c \<notin> set [CHR ''<'', CHR ''&'', dquote, squote, CHR 0x5C])"

definition plain :: "string \<Rightarrow> bool" where
  "plain text = list_all plain_char text"

text \<open>
  How markup is read back: the value of a double-quoted attribute runs from the opening
  double quote to the next double quote. \<open>first_onclick\<close> is the value of the first
  \<^verbatim>\<open>onclick\<close> attribute of a piece of markup, read that way; character references
  in the value are left as they are written.
\<close>

fun after_marker :: "string \<Rightarrow> string \<Rightarrow> string" where
  "after_marker mk [] = []"
| "after_marker mk (c # s) =
     (if prefix mk (c # s) then drop (length mk) (c # s) else after_marker mk s)"

definition first_onclick :: "string \<Rightarrow> string" where
  "first_onclick html =
     takeWhile (\<lambda>c. c \<noteq> dquote) (after_marker (''onclick='' @ [dquote]) html)"

text \<open>
  The filter as the specification words it: a record matches when the lower-cased query
  is a substring of its lower-cased title or of its lower-cased genre. \<open>sublist\<close> is
  the library's notion of a contiguous part of a list.
\<close>

definition spec_matches :: "string \<Rightarrow> movie \<Rightarrow> bool" where
  "spec_matches q r =
     (sublist (toLowerCase q) (toLowerCase (title r)) \<or>
      sublist (toLowerCase q) (toLowerCase (genre r)))"

definition spec_filter :: "string \<Rightarrow> movie list \<Rightarrow> movie list" where
  "spec_filter q C = filter (spec_matches q) C"

subsection \<open>Sample data\<close>

text \<open>The state when the script has just been loaded, with an empty form.\<close>

definition empty_form :: form_fields where
  "empty_form = \<lparr>title_value = [], genre_value = [], year_value = []\<rparr>"

definition init_app :: app where
  "init_app =
     \<lparr>allMovies = [], movieListDiv = [], searchInput = [], form = empty_form,
      form_defaults = empty_form, console = [], alerts = [], network = []\<rparr>"

definition dune :: movie where
  "dune = \<lparr>movie_id = 1, title = ''Dune'', genre = ''Sci-Fi'', year = 2021\<rparr>"

definition heat :: movie where
  "heat = \<lparr>movie_id = 2, title = ''Heat'', genre = ''Crime'', year = 1995\<rparr>"

text \<open>A movie whose title holds a double quote, and one whose title holds markup and an
  apostrophe.\<close>

definition quoted :: movie where
  "quoted = \<lparr>movie_id = 3, title = ''a'' @ [dquote] @ ''b'', genre = ''Drama'', year = 2021\<rparr>"

definition marked :: movie where
  "marked = \<lparr>movie_id = 4, title = ''<b>It'' @ [squote] @ ''s</b>'', genre = ''Drama'',
              year = 1999\<rparr>"

text \<open>A movie whose title opens a comment.\<close>

definition commented :: movie where
  "commented = \<lparr>movie_id = 5, title = ''<!--'', genre = ''Drama'', year = 2021\<rparr>"

text \<open>The page with two movies loaded and shown, and the same page with the form filled
  in with a year that is no number.\<close>

definition loaded_app :: app where
  "loaded_app = renderMovies [dune, heat] (init_app\<lparr>allMovies := [dune, heat]\<rparr>)"

definition abcd_app :: app where
  "abcd_app =
     loaded_app\<lparr>form := \<lparr>title_value = ''Tenet'', genre_value = ''Action'',
                           year_value = ''abcd''\<rparr>\<rparr>"

section \<open>Rendering\<close>

subsection \<open>The markup of a row\<close>

lemma rowHtml_parts:
  "rowHtml m =
     newline # indent 12 @ ''<p>'' @ rowText m @ ''</p>'' @ newline # indent 12
     @ onclick_button (editCall m) ''Edit'' @ newline # indent 12
     @ onclick_button (deleteCall m) ''Delete'' @ newline # indent 8"
  by (simp add: rowHtml_def rowText_def editCall_def deleteCall_def onclick_button_def)

lemma rowHtml_shows_edit: "sublist (onclick_button (editCall m) ''Edit'') (rowHtml m)"
proof -
  have "rowHtml m = (newline # indent 12 @ ''<p>'' @ rowText m @ ''</p>'' @ newline # indent 12)
      @ onclick_button (editCall m) ''Edit''
      @ (newline # indent 12 @ onclick_button (deleteCall m) ''Delete'' @ newline # indent 8)"
    by (simp add: rowHtml_parts)
  then show ?thesis
    by (simp only: sublist_appendI)
qed

subsection \<open>The listing\<close>

text \<open>The loop of \<^verbatim>\<open>renderMovies\<close> appends one element for each movie, in order.\<close>

lemma foldl_appendChild:
  "foldl (\<lambda>st movie. appendChild (movieElement movie) st) s ms =
     s\<lparr>movieListDiv := movieListDiv s @ map (\<lambda>m. Created (movieElement m)) ms\<rparr>"
  by (induction ms arbitrary: s) (simp_all add: appendChild_def)

lemma renderMovies_eq:
  "renderMovies ms s =
     s\<lparr>movieListDiv := (if ms = [] then [Parsed placeholder]
                         else map (\<lambda>m. Created (movieElement m)) ms)\<rparr>"
  by (simp add: renderMovies_def foldl_appendChild set_innerHTML_def placeholder_def)

lemma rows_created: "rows (map (\<lambda>m. Created (movieElement m)) ms) = map movieElement ms"
  by (induction ms) (simp_all add: rows_def movieElement_def)

lemma rows_placeholder: "rows [Parsed html] = []"
  by (simp add: rows_def)

text \<open>
  Claim C9. What \<^verbatim>\<open>renderMovies\<close> leaves in the list element depends on the sequence
  rendered only: it is the same from any two states, the rest of the state is not
  touched, rendering the same sequence a second time changes nothing, and a render
  wipes out whatever an earlier render had put there.
\<close>

theorem renderMovies_idempotent:
  "renderMovies S s = s\<lparr>movieListDiv := movieListDiv (renderMovies S s')\<rparr> \<and>
   renderMovies S (renderMovies S s) = renderMovies S s \<and>
   renderMovies S (renderMovies S' s) = renderMovies S s"
  by (simp add: renderMovies_eq)

theorem renderMovies_idempotent_witness:
  "renderMovies [dune, heat] loaded_app = loaded_app \<and>
   movieListDiv (renderMovies [heat] loaded_app) = [Created (movieElement heat)] \<and>
   movieListDiv (renderMovies [heat] (renderMovies [] loaded_app))
     = movieListDiv (renderMovies [heat] init_app)"
  using renderMovies_idempotent [of "[dune, heat]" "init_app\<lparr>allMovies := [dune, heat]\<rparr>" init_app "[]"]
    renderMovies_idempotent [of "[heat]" loaded_app init_app "[]"]
  by (simp add: loaded_app_def renderMovies_eq)

subsection \<open>Escaping\<close>

lemma escapeQuotes_no_squote: "squote \<notin> set (toString (escapeQuotes (JString str)))"
  by (induction str) simp_all

lemma escapeQuotes_length:
  "length (toString (escapeQuotes (JString str))) = length str + 4 * length (filter (\<lambda>c. c = squote) str)"
  by (induction str) simp_all

lemma escapeQuotes_same: "squote \<notin> set str \<Longrightarrow> toString (escapeQuotes (JString str)) = str"
  by (induction str) auto

lemma escapeQuotes_id_iff: "toString (escapeQuotes (JString str)) = str \<longleftrightarrow> squote \<notin> set str"
proof
  assume eq: "toString (escapeQuotes (JString str)) = str"
  have "length str = length str + 4 * length (filter (\<lambda>c. c = squote) str)"
    using escapeQuotes_length [of str] by (simp only: eq)
  then have "filter (\<lambda>c. c = squote) str = []"
    by simp
  then show "squote \<notin> set str"
    by (auto simp: filter_empty_conv)
next
  assume "squote \<notin> set str"
  then show "toString (escapeQuotes (JString str)) = str"
    by (rule escapeQuotes_same)
qed

lemma escapeQuotes_dquote: "dquote \<in> set str \<Longrightarrow> dquote \<in> set (toString (escapeQuotes (JString str)))"
  by (induction str) auto

subsection \<open>Reading the markup of a row back\<close>

lemma editCall_keeps_dquote:
  "dquote \<in> set (title m) \<or> dquote \<in> set (genre m) \<Longrightarrow> dquote \<in> set (editCall m)"
  using escapeQuotes_dquote [of "title m"] escapeQuotes_dquote [of "genre m"]
  by (auto simp: editCall_def simp del: escapeQuotes.simps toString.simps)

lemma show_int_small:
  "show_int 1 = ''1''" "show_int 2 = ''2''" "show_int 3 = ''3''" "show_int 4 = ''4''"
  "show_int 1995 = ''1995''" "show_int 1999 = ''1999''" "show_int 2021 = ''2021''"
  by (simp_all add: show_int_def show_nat.simps)

lemma indent_numeral:
  "indent 8 = ''        ''" "indent 12 = ''            ''" "indent 16 = ''                ''"
  by (simp_all add: eval_nat_numeral)

lemma editCall_quoted:
  "editCall quoted = ''editMoviePrompt(3, '' @ [squote] @ ''a'' @ [dquote] @ ''b'' @ [squote]
     @ '', 2021,'' @ newline # indent 16 @ [squote] @ ''Drama'' @ [squote] @ '')''"
  by (simp add: editCall_def quoted_def show_int_small)

lemma first_onclick_quoted:
  "first_onclick (rowHtml quoted) = ''editMoviePrompt(3, '' @ [squote] @ ''a''"
  by (simp add: rowHtml_parts first_onclick_def onclick_button_def rowText_def indent_numeral
       editCall_def quoted_def show_int_small)

lemma first_onclick_dune:
  "first_onclick (rowHtml dune) = editCall dune"
  by (simp add: rowHtml_parts first_onclick_def onclick_button_def rowText_def indent_numeral
       editCall_def dune_def show_int_small)

text \<open>
  Claim C1. The claim asks that no quote character of a title or genre reaches the
  \<^verbatim>\<open>onclick\<close> attribute unescaped. \<^verbatim>\<open>escapeQuotes\<close> replaces every apostrophe
  (\<open>escapeQuotes_no_squote\<close>) but leaves a double quote as it is, and the attribute is
  delimited by double quotes. For the title \<^verbatim>\<open>a"b\<close> the escaped title is the title
  itself, and the attribute read back from the row's markup stops inside the title, so
  it is not the call that was written.
\<close>

theorem escapeQuotes_misses_double_quote:
  "dquote \<in> set (title quoted) \<and>
   toString (escapeQuotes (JString (title quoted))) = title quoted \<and>
   sublist (onclick_button (editCall quoted) ''Edit'') (innerHTML (movieElement quoted)) \<and>
   dquote \<in> set (editCall quoted) \<and>
   first_onclick (innerHTML (movieElement quoted)) = ''editMoviePrompt(3, '' @ [squote] @ ''a'' \<and>
   first_onclick (innerHTML (movieElement quoted)) \<noteq> editCall quoted \<and>
   first_onclick (innerHTML (movieElement dune)) = editCall dune"
proof -
  have "dquote \<in> set (title quoted)"
    by (simp add: quoted_def)
  moreover have "toString (escapeQuotes (JString (title quoted))) = title quoted"
    by (simp add: quoted_def)
  moreover have "innerHTML (movieElement m) = rowHtml m" for m
    by (simp add: movieElement_def)
  moreover have "first_onclick (rowHtml quoted) \<noteq> editCall quoted"
    by (simp add: first_onclick_quoted editCall_quoted)
  moreover have "dquote \<in> set (editCall quoted)"
    by (simp add: editCall_quoted)
  ultimately show ?thesis
    using rowHtml_shows_edit [of quoted] first_onclick_quoted first_onclick_dune
    by (simp del: escapeQuotes.simps toString.simps)
qed

text \<open>
  Claim C10. The paragraph of a row holds the title, the year and the genre as they
  are; only the two copies inside the call of the Edit button go through
  \<^verbatim>\<open>escapeQuotes\<close>, which changes a string exactly when it holds an apostrophe. So
  markup inside a title is part of the paragraph's markup, unchanged.
\<close>

theorem rowHtml_display_verbatim:
  "innerHTML (movieElement m) =
     newline # indent 12 @ ''<p><strong>'' @ title m @ ''</strong> ('' @ show_int (year m)
     @ '') - '' @ genre m @ ''</p>'' @ newline # indent 12
     @ ''<button onclick='' @ [dquote] @ ''editMoviePrompt('' @ show_int (movie_id m) @ '', ''
     @ [squote] @ toString (escapeQuotes (JString (title m))) @ [squote] @ '', ''
     @ show_int (year m) @ '','' @ newline # indent 16 @ [squote]
     @ toString (escapeQuotes (JString (genre m))) @ [squote] @ '')'' @ [dquote]
     @ ''>Edit</button>'' @ newline # indent 12
     @ onclick_button (deleteCall m) ''Delete'' @ newline # indent 8 \<and>
   (toString (escapeQuotes (JString (title m))) = title m \<longleftrightarrow> squote \<notin> set (title m)) \<and>
   (toString (escapeQuotes (JString (genre m))) = genre m \<longleftrightarrow> squote \<notin> set (genre m))"
  by (simp add: movieElement_def rowHtml_def onclick_button_def deleteCall_def
      escapeQuotes_id_iff del: escapeQuotes.simps toString.simps)

theorem rowHtml_display_verbatim_witness:
  "innerHTML (movieElement marked) =
     newline # indent 12 @ ''<p><strong><b>It'' @ [squote] @ ''s</b></strong> (1999) - Drama</p>''
     @ newline # indent 12 @ ''<button onclick='' @ [dquote] @ ''editMoviePrompt(4, '' @ [squote]
     @ ''<b>It&#39;s</b>'' @ [squote] @ '', 1999,'' @ newline # indent 16 @ [squote] @ ''Drama''
     @ [squote] @ '')'' @ [dquote] @ ''>Edit</button>'' @ newline # indent 12
     @ ''<button onclick='' @ [dquote] @ ''deleteMovie(4)'' @ [dquote] @ ''>Delete</button>''
     @ newline # indent 8 \<and>
   toString (escapeQuotes (JString (title marked))) \<noteq> title marked"
  using rowHtml_display_verbatim [of marked]
  by (simp add: marked_def show_int_small onclick_button_def deleteCall_def)

subsection \<open>The rows as the browser reads them\<close>

lemma plain_Nil: "plain []"
  by (simp add: plain_def)

lemma plain_Cons: "plain (c # s) \<longleftrightarrow> plain_char c \<and> plain s"
  by (simp add: plain_def)

lemma plain_append: "plain (s @ t) \<longleftrightarrow> plain s \<and> plain t"
  by (simp add: plain_def)

lemma plain_char_not_special:
  assumes "plain_char c"
  shows "c \<noteq> CHR ''<''" "c \<noteq> CHR ''&''" "c \<noteq> dquote" "c \<noteq> squote"
  using assms by (simp_all add: plain_char_def)

lemma plain_char_not_control:
  assumes "plain_char c"
  shows "c \<noteq> CHR 0x00" "c \<noteq> CHR 0x0D"
proof -
  have le: "(32 :: nat) \<le> of_char c"
    using assms by (simp add: plain_char_def)
  show "c \<noteq> CHR 0x00"
  proof
    assume "c = CHR 0x00"
    then have "of_char c = (0 :: nat)" by simp
    with le show False by simp
  qed
  show "c \<noteq> CHR 0x0D"
  proof
    assume "c = CHR 0x0D"
    then have "of_char c = (13 :: nat)" by simp
    with le show False by simp
  qed
qed

lemma plain_not_in:
  assumes "plain s"
  shows "squote \<notin> set s" "CHR 0x00 \<notin> set s" "CHR 0x0D \<notin> set s"
  using assms
  by (induction s)
     (auto simp: plain_Cons dest: plain_char_not_special(4) plain_char_not_control)

lemma plain_digit: "n < 10 \<Longrightarrow> plain_char (''0123456789'' ! n)"
proof -
  assume "n < 10"
  then have "n \<in> {0, 1, 2, 3, 4, 5, 6, 7, 8, 9}"
    by auto
  then show ?thesis
    by (auto simp: plain_char_def)
qed

lemma plain_show_nat: "plain (show_nat n)"
proof (induction n rule: show_nat.induct)
  case (1 n)
  show ?case
  proof (cases "n < 10")
    case True
    then show ?thesis
      by (subst show_nat.simps) (simp add: plain_Cons plain_Nil plain_digit)
  next
    case False
    then show ?thesis
      using 1 by (subst show_nat.simps) (simp add: plain_append plain_Cons plain_Nil plain_digit)
  qed
qed

lemma plain_show_int: "plain (show_int i)"
  by (simp add: show_int_def plain_Cons plain_show_nat plain_char_def)

lemma map_option_Nil_append: "map_option ((@) []) x = x"
  by (cases x) simp_all

lemma append_single: "(@) [t] = (#) t"
  by (rule ext) simp

lemma tokenize_text_char:
  "c \<noteq> CHR ''<'' \<Longrightarrow> c \<noteq> CHR ''&'' \<Longrightarrow>
   tokenize Data (c # rest) = map_option (\<lambda>r. Character c # r) (tokenize Data rest)"
  by (simp add: data_step_def append_single)

lemma tokenize_plain_text:
  "plain s \<Longrightarrow>
   tokenize Data (s @ rest) = map_option (\<lambda>r. map Character s @ r) (tokenize Data rest)"
proof (induction s)
  case Nil
  then show ?case by (simp add: option.map_ident del: tokenize.simps)
next
  case (Cons c s)
  then have "plain_char c" "plain s"
    by (simp_all add: plain_Cons)
  then show ?case
    using Cons.IH plain_char_not_special [of c]
    by (simp add: tokenize_text_char option.map_comp comp_def del: tokenize.simps)
qed

lemma tokenize_value_char:
  "c \<noteq> dquote \<Longrightarrow> c \<noteq> CHR ''&'' \<Longrightarrow>
   tokenize (AttributeValueDQ tag attrs name val) (c # rest)
     = tokenize (AttributeValueDQ tag attrs name (val @ [c])) rest"
  by (simp add: map_option_Nil_append)

lemma tokenize_plain_value:
  "plain s \<Longrightarrow>
   tokenize (AttributeValueDQ tag attrs name val) (s @ rest)
     = tokenize (AttributeValueDQ tag attrs name (val @ s)) rest"
proof (induction s arbitrary: val)
  case Nil
  then show ?case by simp
next
  case (Cons c s)
  then have "plain_char c" "plain s"
    by (simp_all add: plain_Cons)
  then show ?case
    using Cons.IH [of "val @ [c]"] plain_char_not_special [of c]
    by (simp add: tokenize_value_char del: tokenize.simps)
qed

lemma tokenize_value_end:
  "tokenize (AttributeValueDQ tag attrs name val) (dquote # CHR ''>'' # rest)
     = map_option (\<lambda>r. StartTag tag (attrs @ [(name, val)]) # r) (tokenize Data rest)"
  by (simp add: html_space_def map_option_Nil_append append_single)

lemma tokenize_tags:
  "tokenize Data (''<p>'' @ rest) = map_option (\<lambda>r. StartTag ''p'' [] # r) (tokenize Data rest)"
  "tokenize Data (''<strong>'' @ rest)
     = map_option (\<lambda>r. StartTag ''strong'' [] # r) (tokenize Data rest)"
  "tokenize Data (''</strong>'' @ rest)
     = map_option (\<lambda>r. EndTag ''strong'' # r) (tokenize Data rest)"
  "tokenize Data (''</p>'' @ rest) = map_option (\<lambda>r. EndTag ''p'' # r) (tokenize Data rest)"
  "tokenize Data (''</button>'' @ rest)
     = map_option (\<lambda>r. EndTag ''button'' # r) (tokenize Data rest)"
  "tokenize Data (''<button onclick='' @ dquote # rest)
     = tokenize (AttributeValueDQ ''button'' [] ''onclick'' []) rest"
  by (simp_all add: data_step_def attribute_name_step_def html_space_def ascii_alpha_def
      toLowerChar_def map_option_Nil_append append_single)

lemmas tokenize_tags_Cons = tokenize_tags [simplified append_Cons append_Nil]


lemma row_absent:
  "plain (title m) \<Longrightarrow> plain (genre m) \<Longrightarrow>
   CHR 0x00 \<notin> set (rowHtml m) \<and> CHR 0x0D \<notin> set (rowHtml m)"
  using plain_not_in [of "title m"] plain_not_in [of "genre m"]
    plain_not_in [OF plain_show_int, of "year m"] plain_not_in [OF plain_show_int, of "movie_id m"]
  by (simp add: rowHtml_def escapeQuotes_same del: escapeQuotes.simps)

lemma tokenize_rowHtml:
  "plain (title m) \<Longrightarrow> plain (genre m) \<Longrightarrow> tokenize Data (rowHtml m) = Some (row_tokens m)"
  using plain_not_in(1) [of "title m"] plain_not_in(1) [of "genre m"]
  by (simp add: rowHtml_def row_tokens_def editScript_def deleteCall_def escapeQuotes_same
      indent_numeral tokenize_tags_Cons tokenize_text_char tokenize_value_char
      tokenize_value_end tokenize_plain_text tokenize_plain_value plain_show_int
      del: escapeQuotes.simps tokenize.simps(2))

lemma covered_characters: "list_all covered_token (map Character s)"
  by (induction s) simp_all

lemma covered_row_tokens: "list_all covered_token (row_tokens m)"
  by (simp add: row_tokens_def covered_characters raw_text_element_def
      del: list.map map_append)

lemma parse_markup_rowHtml:
  "plain (title m) \<Longrightarrow> plain (genre m) \<Longrightarrow> parse_markup (rowHtml m) = Some (row_tokens m)"
  by (simp add: parse_markup_def row_absent tokenize_rowHtml covered_row_tokens)

lemma plain_samples: "plain ''Dune''" "plain ''Sci-Fi''" "plain ''Heat''" "plain ''Crime''"
  by (simp_all add: plain_def plain_char_def)

lemma shows_movie_plain:
  "plain (title m) \<Longrightarrow> plain (genre m) \<Longrightarrow> shows_movie m (movieElement m)"
  by (simp add: shows_movie_def movieElement_def parse_markup_rowHtml)

lemma list_all2_shows:
  "list_all2 (\<lambda>m e. plain (title m) \<and> plain (genre m) \<longrightarrow> shows_movie m e) ms
     (map movieElement ms)"
  by (induction ms) (simp_all add: shows_movie_plain)

lemma parse_markup_commented:
  "parse_markup (rowHtml commented) =
     Some (map Character (newline # indent 12)
       @ [StartTag ''p'' [], StartTag ''strong'' [],
          Comment (''</strong> (2021) - Drama</p>'' @ newline # indent 12
            @ ''<button onclick='' @ [dquote] @ ''editMoviePrompt(5, '' @ [squote] @ ''<!--''
            @ [squote] @ '', 2021,'' @ newline # indent 16 @ [squote] @ ''Drama'' @ [squote]
            @ '')'' @ [dquote] @ ''>Edit</button>'' @ newline # indent 12
            @ ''<button onclick='' @ [dquote] @ ''deleteMovie(5)'' @ [dquote]
            @ ''>Delete</button>'' @ newline # indent 8)])"
  by (simp add: parse_markup_def rowHtml_def commented_def indent_numeral show_int_def
      show_nat.simps data_step_def comment_step_def html_space_def ascii_alpha_def
      toLowerChar_def raw_text_element_def)

lemma list_all_movieElement:
  "list_all (\<lambda>e. tagName e = ''div'' \<and> classList e = [''movie-item'']) (map movieElement ms)"
  by (induction ms) (simp_all add: movieElement_def)

lemma row_tokens_commented:
  "map Character (newline # indent 12) @ [StartTag ''p'' [], StartTag ''strong'' [], Comment text]
     \<noteq> row_tokens commented"
  by (simp add: row_tokens_def commented_def indent_numeral)

text \<open>
  Claim C4. Rendering the empty sequence leaves the "no results" placeholder and no row.
  Rendering a non-empty sequence \<open>S\<close> leaves exactly the rows, as many as \<open>S\<close> has
  records and in the same order, each a \<^verbatim>\<open>div\<close> of class \<^verbatim>\<open>movie-item\<close>. For a record
  whose title and genre are plain text, the markup of its row is read as a paragraph
  with the title, the year and the genre, an Edit button whose call carries the
  identifier and the three values, and a Delete button whose call carries the
  identifier. Nothing is said of the row of a record whose title or genre is not plain
  text.
\<close>

theorem renderMovies_rows_parsed:
  "movieListDiv (renderMovies [] s) = [Parsed placeholder] \<and>
   rows (movieListDiv (renderMovies [] s)) = [] \<and>
   (S \<noteq> [] \<longrightarrow>
      movieListDiv (renderMovies S s) = map Created (rows (movieListDiv (renderMovies S s))) \<and>
      rows (movieListDiv (renderMovies S s)) = map movieElement S \<and>
      length (rows (movieListDiv (renderMovies S s))) = length S \<and>
      list_all (\<lambda>e. tagName e = ''div'' \<and> classList e = [''movie-item''])
        (rows (movieListDiv (renderMovies S s))) \<and>
      list_all2 (\<lambda>m e. plain (title m) \<and> plain (genre m) \<longrightarrow> shows_movie m e) S
        (rows (movieListDiv (renderMovies S s))))"
  by (simp add: renderMovies_eq rows_created rows_placeholder list_all2_shows
      list_all_movieElement)

theorem renderMovies_rows_parsed_witness:
  "[dune, heat] \<noteq> [] \<and>
   plain (title dune) \<and> plain (genre dune) \<and> plain (title heat) \<and> plain (genre heat) \<and>
   rows (movieListDiv (renderMovies [dune, heat] init_app)) = [movieElement dune, movieElement heat] \<and>
   length (rows (movieListDiv (renderMovies [dune, heat] init_app))) = 2 \<and>
   parse_markup (innerHTML (movieElement dune)) = Some (row_tokens dune) \<and>
   parse_markup (innerHTML (movieElement heat)) = Some (row_tokens heat) \<and>
   movieListDiv (renderMovies [] loaded_app) = [Parsed placeholder]"
proof -
  have p: "plain (title dune)" "plain (genre dune)" "plain (title heat)" "plain (genre heat)"
    by (simp_all add: dune_def heat_def plain_samples)
  show ?thesis
    using renderMovies_rows_parsed [of loaded_app "[dune, heat]"]
      renderMovies_rows_parsed [of init_app "[dune, heat]"] p
    by (simp add: shows_movie_def renderMovies_eq rows_created)
qed

text \<open>
  The restriction to plain text is needed. The template writes the title into the
  markup as it is, so a title that opens a comment takes the rest of the row with it:
  the row of such a record is read as the start of a paragraph and one comment, with no
  title, year or genre shown and no button at all.
\<close>

theorem renderMovies_rows_counterexample:
  "[commented] \<noteq> [] \<and>
   rows (movieListDiv (renderMovies [commented] init_app)) = [movieElement commented] \<and>
   parse_markup (innerHTML (movieElement commented)) =
     Some (map Character (newline # indent 12)
       @ [StartTag ''p'' [], StartTag ''strong'' [],
          Comment (''</strong> (2021) - Drama</p>'' @ newline # indent 12
            @ ''<button onclick='' @ [dquote] @ ''editMoviePrompt(5, '' @ [squote] @ ''<!--''
            @ [squote] @ '', 2021,'' @ newline # indent 16 @ [squote] @ ''Drama'' @ [squote]
            @ '')'' @ [dquote] @ ''>Edit</button>'' @ newline # indent 12
            @ ''<button onclick='' @ [dquote] @ ''deleteMovie(5)'' @ [dquote]
            @ ''>Delete</button>'' @ newline # indent 8)]) \<and>
   \<not> list_all2 shows_movie [commented] (rows (movieListDiv (renderMovies [commented] init_app)))"
proof -
  have r: "rows (movieListDiv (renderMovies [commented] init_app)) = [movieElement commented]"
    using rows_created [of "[commented]"] by (simp add: renderMovies_eq)
  have i: "innerHTML (movieElement commented) = rowHtml commented"
    by (simp add: movieElement_def)
  have "\<not> shows_movie commented (movieElement commented)"
  proof
    assume "shows_movie commented (movieElement commented)"
    then have "parse_markup (rowHtml commented) = Some (row_tokens commented)"
      by (simp add: shows_movie_def movieElement_def)
    then have "map Character (newline # indent 12)
       @ [StartTag ''p'' [], StartTag ''strong'' [],
          Comment (''</strong> (2021) - Drama</p>'' @ newline # indent 12
            @ ''<button onclick='' @ [dquote] @ ''editMoviePrompt(5, '' @ [squote] @ ''<!--''
            @ [squote] @ '', 2021,'' @ newline # indent 16 @ [squote] @ ''Drama'' @ [squote]
            @ '')'' @ [dquote] @ ''>Edit</button>'' @ newline # indent 12
            @ ''<button onclick='' @ [dquote] @ ''deleteMovie(5)'' @ [dquote]
            @ ''>Delete</button>'' @ newline # indent 8)] = row_tokens commented"
      by (simp only: parse_markup_commented option.inject)
    with row_tokens_commented show False
      by (rule notE)
  qed
  then show ?thesis
    by (simp only: r i parse_markup_commented) simp
qed

section \<open>Searching\<close>

lemma includes_str_sublist: "includes_str s t = sublist t s"
  by (induction s) (simp_all add: sublist_Cons_right)

lemma filterMovies_spec: "filterMovies (toLowerCase q) C = spec_filter q C"
  unfolding filterMovies_def spec_filter_def
  by (rule filter_cong) (simp_all add: spec_matches_def includes_str_sublist)

lemma toLowerCase_Nil: "toLowerCase [] = []"
  by (simp add: toLowerCase_def)

lemma spec_filter_empty: "spec_filter [] C = C"
  by (induction C) (simp_all add: spec_filter_def spec_matches_def toLowerCase_Nil)

lemma spec_filter_year:
  "spec_filter q (map (\<lambda>r. r\<lparr>year := f r\<rparr>) C) = map (\<lambda>r. r\<lparr>year := f r\<rparr>) (spec_filter q C)"
  by (induction C) (simp_all add: spec_filter_def spec_matches_def)

lemma search_input_eq:
  "search_input s = renderMovies (spec_filter (searchInput s) (allMovies s)) s"
  by (simp add: search_input_def filterMovies_spec)

lemma toLowerCase_small: "toLowerCase ''D'' = ''d''" "toLowerCase ''19'' = ''19''"
  "toLowerCase ''Dune'' = ''dune''" "toLowerCase ''Heat'' = ''heat''"
  "toLowerCase ''Sci-Fi'' = ''sci-fi''" "toLowerCase ''Crime'' = ''crime''"
  by (simp_all add: toLowerCase_def toLowerChar_def)

lemma filterMovies_scenario:
  "filterMovies (toLowerCase ''D'') [dune, heat] = [dune]"
  "filterMovies (toLowerCase ''19'') [dune, heat] = []"
  by (simp_all add: filterMovies_def dune_def heat_def toLowerCase_small)

text \<open>
  Claim C3. For a query \<open>q\<close> and a cache \<open>C\<close> the filter of the search box keeps
  exactly the records of \<open>C\<close>, in their order, whose lower-cased title or lower-cased
  genre has the lower-cased \<open>q\<close> as a substring. The empty query keeps all of \<open>C\<close>.
  The year plays no part: changing the years of the records changes the result in the
  same way only. The handler renders the filtered records and leaves the cache alone.
\<close>

theorem search_filter_exact:
  "filterMovies (toLowerCase q) C = spec_filter q C \<and>
   filterMovies (toLowerCase '''') C = C \<and>
   filterMovies (toLowerCase q) (map (\<lambda>r. r\<lparr>year := f r\<rparr>) C)
     = map (\<lambda>r. r\<lparr>year := f r\<rparr>) (filterMovies (toLowerCase q) C) \<and>
   search_input s = renderMovies (spec_filter (searchInput s) (allMovies s)) s \<and>
   allMovies (search_input s) = allMovies s"
  by (simp add: filterMovies_spec spec_filter_empty spec_filter_year search_input_eq
      renderMovies_eq)

theorem search_filter_exact_witness:
  "spec_filter ''D'' [dune, heat] = [dune] \<and> spec_filter ''19'' [dune, heat] = [] \<and>
   spec_filter '''' [dune, heat] = [dune, heat]"
  using search_filter_exact [of "''D''" "[dune, heat]"] search_filter_exact [of "''19''" "[dune, heat]"]
    search_filter_exact [of "''''" "[dune, heat]"]
  by (simp only: filterMovies_scenario)

section \<open>Synchronising with the server\<close>

lemma parseInt_samples: "parseInt ''abcd'' = NaN" "parseInt ''2024'' = Num 2024"
  by (simp_all add: parseInt_def isWhiteSpace_def isDigitOf_def digitValue_def digitsValue_def)

lemma ok_samples:
  "ok \<lparr>status = 200, json = j\<rparr>" "ok \<lparr>status = 201, json = j\<rparr>" "ok \<lparr>status = 204, json = j\<rparr>"
  "\<not> ok \<lparr>status = 400, json = j\<rparr>" "\<not> ok \<lparr>status = 404, json = j\<rparr>"
  "\<not> ok \<lparr>status = 500, json = j\<rparr>"
  by (simp_all add: ok_def)

subsection \<open>Loading\<close>

lemma fetchMovies_eq:
  "fetchMovies s = s\<lparr>network := network s @ [\<lparr>req_method = GET, url = API_URL, headers = [], body = None\<rparr>]\<rparr>"
  by (simp add: fetchMovies_def fetch_def)

lemma fetchMovies_settled_Rejected:
  "fetchMovies_settled Rejected s =
     s\<lparr>console := console s @ [(''Error fetching movies:'', FetchRejected)]\<rparr>"
  by (simp add: fetchMovies_settled_def console_error_def)

lemma fetchMovies_settled_not_ok:
  "\<not> ok r \<Longrightarrow> fetchMovies_settled (Fulfilled r) s =
     s\<lparr>console := console s @
        [(''Error fetching movies:'', Error (''HTTP error! status: '' @ show_nat (status r)))]\<rparr>"
  by (simp add: fetchMovies_settled_def console_error_def)

lemma fetchMovies_settled_no_json:
  "ok r \<Longrightarrow> json r = None \<Longrightarrow> fetchMovies_settled (Fulfilled r) s =
     s\<lparr>console := console s @ [(''Error fetching movies:'', JsonRejected)]\<rparr>"
  by (simp add: fetchMovies_settled_def console_error_def)

lemma fetchMovies_settled_success:
  "ok r \<Longrightarrow> json r = Some movies \<Longrightarrow>
   fetchMovies_settled (Fulfilled r) s = renderMovies movies (s\<lparr>allMovies := movies\<rparr>)"
  by (simp add: fetchMovies_settled_def)

text \<open>
  Claim C5. When the load fails, by a rejected \<^verbatim>\<open>fetch\<close> or by a response whose status
  is outside the 200s, whatever the status is, the only change of the state is one more
  entry in the console: cache and listing stay as they were. The same holds when the body
  of a successful response is not JSON. When the load succeeds the cache is the list the
  server sent, whatever the cache was, and the listing is the render of that whole list.
\<close>

theorem fetchMovies_settled_policy:
  "fetchMovies_settled Rejected s =
     s\<lparr>console := console s @ [(''Error fetching movies:'', FetchRejected)]\<rparr> \<and>
   (\<not> ok r \<longrightarrow>
      fetchMovies_settled (Fulfilled r) s =
        s\<lparr>console := console s @
           [(''Error fetching movies:'', Error (''HTTP error! status: '' @ show_nat (status r)))]\<rparr> \<and>
      allMovies (fetchMovies_settled (Fulfilled r) s) = allMovies s \<and>
      movieListDiv (fetchMovies_settled (Fulfilled r) s) = movieListDiv s) \<and>
   (ok r \<and> json r = None \<longrightarrow>
      fetchMovies_settled (Fulfilled r) s =
        s\<lparr>console := console s @ [(''Error fetching movies:'', JsonRejected)]\<rparr>) \<and>
   (ok r \<and> json r = Some movies \<longrightarrow>
      fetchMovies_settled (Fulfilled r) s = renderMovies movies (s\<lparr>allMovies := movies\<rparr>) \<and>
      allMovies (fetchMovies_settled (Fulfilled r) s) = movies \<and>
      movieListDiv (fetchMovies_settled (Fulfilled r) s) = movieListDiv (renderMovies movies s') \<and>
      console (fetchMovies_settled (Fulfilled r) s) = console s)"
  by (simp add: fetchMovies_settled_Rejected fetchMovies_settled_not_ok fetchMovies_settled_no_json
      fetchMovies_settled_success renderMovies_eq)

theorem fetchMovies_settled_policy_witness:
  "\<not> ok \<lparr>status = 404, json = Some [marked]\<rparr> \<and>
   allMovies (fetchMovies_settled (Fulfilled \<lparr>status = 404, json = Some [marked]\<rparr>) loaded_app) = [dune, heat] \<and>
   movieListDiv (fetchMovies_settled (Fulfilled \<lparr>status = 404, json = Some [marked]\<rparr>) loaded_app)
     = [Created (movieElement dune), Created (movieElement heat)] \<and>
   allMovies (fetchMovies_settled (Fulfilled \<lparr>status = 500, json = None\<rparr>) loaded_app) = [dune, heat] \<and>
   ok \<lparr>status = 200, json = Some [marked]\<rparr> \<and>
   allMovies (fetchMovies_settled (Fulfilled \<lparr>status = 200, json = Some [marked]\<rparr>) loaded_app) = [marked] \<and>
   movieListDiv (fetchMovies_settled (Fulfilled \<lparr>status = 200, json = Some [marked]\<rparr>) loaded_app)
     = [Created (movieElement marked)]"
  using fetchMovies_settled_policy [of loaded_app "\<lparr>status = 404, json = Some [marked]\<rparr>"]
    fetchMovies_settled_policy [of loaded_app "\<lparr>status = 500, json = None\<rparr>"]
    fetchMovies_settled_policy [of loaded_app "\<lparr>status = 200, json = Some [marked]\<rparr>" "[marked]" init_app]
  by (simp add: ok_samples loaded_app_def init_app_def renderMovies_eq)

subsection \<open>Deleting\<close>

text \<open>
  Claim C6. A delete sends nothing unless the user confirmed: with the confirmation
  declined the state is unchanged, a request is sent only if the answer was yes, and then
  it is exactly one \<^verbatim>\<open>DELETE\<close> of the movie's address. The cache is not touched either
  way.
\<close>

theorem deleteMovie_confirmation:
  "deleteMovie movieId False s = s \<and>
   (network (deleteMovie movieId confirmed s) \<noteq> network s \<longrightarrow> confirmed) \<and>
   (confirmed \<longrightarrow>
      deleteMovie movieId confirmed s =
        s\<lparr>network := network s @
           [\<lparr>req_method = DELETE, url = API_URL @ ''/'' @ show_int movieId, headers = [],
             body = None\<rparr>]\<rparr>) \<and>
   allMovies (deleteMovie movieId confirmed s) = allMovies s"
  by (simp add: deleteMovie_def fetch_def)

theorem deleteMovie_confirmation_witness:
  "network (deleteMovie 2 True loaded_app) \<noteq> network loaded_app \<and>
   network (deleteMovie 2 True loaded_app) =
     [\<lparr>req_method = DELETE, url = ''http://localhost:3000/movies/2'', headers = [], body = None\<rparr>] \<and>
   deleteMovie 2 False loaded_app = loaded_app \<and>
   allMovies (deleteMovie 2 True loaded_app) = [dune, heat]"
  using deleteMovie_confirmation [of 2 loaded_app True]
  by (simp add: loaded_app_def init_app_def renderMovies_eq API_URL_def show_int_small)

subsection \<open>Editing\<close>

lemma updateMovie_eq:
  "updateMovie i d s = s\<lparr>network := network s @
     [\<lparr>req_method = PUT, url = API_URL @ ''/'' @ show_int i, headers = json_headers, body = Some d\<rparr>]\<rparr>"
  by (simp add: updateMovie_def fetch_def)

lemma editMoviePrompt_cancelled:
  "t = None \<or> y = None \<or> g = None \<Longrightarrow> editMoviePrompt i ct cy cg t y g s = s"
  by (auto simp: editMoviePrompt_def split: option.splits)

lemma editMoviePrompt_answered:
  "editMoviePrompt i ct cy cg (Some t) (Some y) (Some g) s =
     (case parseInt y of
        NaN \<Rightarrow> s\<lparr>alerts := alerts s @ [''Year must be a number.'']\<rparr>
      | Num n \<Rightarrow> updateMovie i \<lparr>data_title = t, data_genre = g, data_year = Num n\<rparr> s)"
  by (cases "parseInt y") (simp_all add: editMoviePrompt_def alert_def)

lemma editMoviePrompt_sent:
  assumes "network (editMoviePrompt i ct cy cg t y g s) \<noteq> network s"
  shows "\<exists>t' y' g' n. t = Some t' \<and> y = Some y' \<and> g = Some g' \<and> parseInt y' = Num n"
proof -
  from assms obtain t' y' g' where tyg: "t = Some t'" "y = Some y'" "g = Some g'"
    using editMoviePrompt_cancelled [of t y g i ct cy cg s] by (cases t; cases y; cases g) auto
  with assms have "parseInt y' \<noteq> NaN"
    by (auto simp: editMoviePrompt_answered)
  then obtain n where "parseInt y' = Num n"
    by (cases "parseInt y'") auto
  with tyg show ?thesis by blast
qed

text \<open>
  Claim C7. If any of the three prompts of an edit is cancelled the state is unchanged:
  nothing is sent and nothing is updated. A request is sent only if all three prompts
  were answered and the year parses as a number, and then it is one \<^verbatim>\<open>PUT\<close> carrying
  the three answers. With a year that is no number there is an alert and no request. The
  cache is never touched.
\<close>

theorem editMoviePrompt_all_or_nothing:
  "(newTitle = None \<or> newYearStr = None \<or> newGenre = None \<longrightarrow>
      editMoviePrompt ident ct cy cg newTitle newYearStr newGenre s = s) \<and>
   (network (editMoviePrompt ident ct cy cg newTitle newYearStr newGenre s) \<noteq> network s \<longrightarrow>
      (\<exists>t y g n. newTitle = Some t \<and> newYearStr = Some y \<and> newGenre = Some g \<and>
         parseInt y = Num n)) \<and>
   (parseInt y = Num n \<longrightarrow>
      editMoviePrompt ident ct cy cg (Some t) (Some y) (Some g) s =
        s\<lparr>network := network s @
           [\<lparr>req_method = PUT, url = API_URL @ ''/'' @ show_int ident, headers = json_headers,
             body = Some \<lparr>data_title = t, data_genre = g, data_year = Num n\<rparr>\<rparr>]\<rparr>) \<and>
   (parseInt y = NaN \<longrightarrow>
      editMoviePrompt ident ct cy cg (Some t) (Some y) (Some g) s =
        s\<lparr>alerts := alerts s @ [''Year must be a number.'']\<rparr>) \<and>
   allMovies (editMoviePrompt ident ct cy cg newTitle newYearStr newGenre s) = allMovies s"
proof -
  have "allMovies (editMoviePrompt ident ct cy cg newTitle newYearStr newGenre s) = allMovies s"
    by (cases newTitle; cases newYearStr; cases newGenre)
       (simp_all add: editMoviePrompt_cancelled editMoviePrompt_answered updateMovie_eq
          split: jsnum.splits)
  then show ?thesis
    using editMoviePrompt_sent [of ident ct cy cg newTitle newYearStr newGenre s]
    by (simp add: editMoviePrompt_cancelled editMoviePrompt_answered updateMovie_eq)
qed

theorem editMoviePrompt_all_or_nothing_witness:
  "editMoviePrompt 1 ''Dune'' 2021 ''Sci-Fi'' (Some ''Dune 2'') None (Some ''Sci-Fi'') loaded_app
     = loaded_app \<and>
   parseInt ''2024'' = Num 2024 \<and>
   network (editMoviePrompt 1 ''Dune'' 2021 ''Sci-Fi'' (Some ''Dune 2'') (Some ''2024'')
       (Some ''Sci-Fi'') loaded_app) =
     [\<lparr>req_method = PUT, url = ''http://localhost:3000/movies/1'', headers = json_headers,
       body = Some \<lparr>data_title = ''Dune 2'', data_genre = ''Sci-Fi'', data_year = Num 2024\<rparr>\<rparr>] \<and>
   network (editMoviePrompt 1 ''Dune'' 2021 ''Sci-Fi'' (Some ''Dune 2'') (Some ''2024'')
       (Some ''Sci-Fi'') loaded_app) \<noteq> network loaded_app \<and>
   parseInt ''abcd'' = NaN \<and>
   alerts (editMoviePrompt 1 ''Dune'' 2021 ''Sci-Fi'' (Some ''Dune 2'') (Some ''abcd'')
       (Some ''Sci-Fi'') loaded_app) = [''Year must be a number.'']"
  using
    editMoviePrompt_all_or_nothing [of "Some ''Dune 2''" None "Some ''Sci-Fi''" 1 "''Dune''" 2021
      "''Sci-Fi''" loaded_app "''2024''" 2024 "''Dune 2''" "''Sci-Fi''"]
    editMoviePrompt_all_or_nothing [of "Some ''Dune 2''" "Some ''2024''" "Some ''Sci-Fi''" 1 "''Dune''" 2021
      "''Sci-Fi''" loaded_app "''abcd''" 0 "''Dune 2''" "''Sci-Fi''"]
  by (simp add: parseInt_samples loaded_app_def init_app_def renderMovies_eq API_URL_def
      show_int_small)

subsection \<open>Creating\<close>

lemma form_submit_sends:
  "title_value (form s) \<noteq> [] \<Longrightarrow> genre_value (form s) \<noteq> [] \<Longrightarrow> year_value (form s) \<noteq> [] \<Longrightarrow>
   form_submit s =
     s\<lparr>network := network s @
        [\<lparr>req_method = POST, url = API_URL, headers = json_headers,
          body = Some \<lparr>data_title = title_value (form s), data_genre = genre_value (form s),
                        data_year = parseInt (year_value (form s))\<rparr>\<rparr>]\<rparr>"
  by (simp add: form_submit_def fetch_def)

lemma form_submit_rejects:
  "title_value (form s) = [] \<or> genre_value (form s) = [] \<or> year_value (form s) = [] \<Longrightarrow>
   form_submit s = s\<lparr>alerts := alerts s @ [''Please fill in all fields.'']\<rparr>"
  by (auto simp: form_submit_def alert_def)

text \<open>
  Claim C2. The claim asks that a create whose year does not parse as an integer is
  rejected with an alert before anything is sent. The submit handler only checks that
  the three fields are not empty: with the year \<^verbatim>\<open>abcd\<close> it raises no alert and sends
  a \<^verbatim>\<open>POST\<close> whose year is \<^verbatim>\<open>NaN\<close>. The edit path does make the check: the same year
  there gives the alert and no request.
\<close>

theorem form_submit_abcd_sent:
  "year_value (form abcd_app) = ''abcd'' \<and>
   parseInt ''abcd'' = NaN \<and>
   form_submit abcd_app =
     abcd_app\<lparr>network :=
        [\<lparr>req_method = POST, url = API_URL, headers = json_headers,
          body = Some \<lparr>data_title = ''Tenet'', data_genre = ''Action'', data_year = NaN\<rparr>\<rparr>]\<rparr> \<and>
   alerts (form_submit abcd_app) = [] \<and>
   editMoviePrompt 1 ''Dune'' 2021 ''Sci-Fi'' (Some ''Dune'') (Some ''abcd'') (Some ''Sci-Fi'')
       abcd_app =
     abcd_app\<lparr>alerts := [''Year must be a number.'']\<rparr>"
proof -
  have f: "form abcd_app = \<lparr>title_value = ''Tenet'', genre_value = ''Action'', year_value = ''abcd''\<rparr>"
    and n: "network abcd_app = []" and a: "alerts abcd_app = []"
    by (simp_all add: abcd_app_def loaded_app_def init_app_def renderMovies_eq)
  show ?thesis
    by (simp add: form_submit_sends editMoviePrompt_answered parseInt_samples f n a)
qed

subsection \<open>After a mutation\<close>

lemma form_submit_settled_success:
  "ok r \<Longrightarrow> json r \<noteq> None \<Longrightarrow> form_submit_settled (Fulfilled r) s = fetchMovies (form_reset s)"
  by (auto simp: form_submit_settled_def)

lemma updateMovie_settled_success:
  "ok r \<Longrightarrow> json r \<noteq> None \<Longrightarrow> updateMovie_settled (Fulfilled r) s = fetchMovies s"
  by (auto simp: updateMovie_settled_def)

lemma deleteMovie_settled_success:
  "ok r \<Longrightarrow> deleteMovie_settled (Fulfilled r) s = fetchMovies s"
  by (simp add: deleteMovie_settled_def)

lemma allMovies_form_submit: "allMovies (form_submit s) = allMovies s"
  by (simp add: form_submit_def alert_def fetch_def Let_def)

lemma allMovies_form_submit_settled: "allMovies (form_submit_settled oc s) = allMovies s"
  by (simp add: form_submit_settled_def console_error_def fetchMovies_eq form_reset_def
      split: settled.splits option.splits)

lemma allMovies_updateMovie_settled: "allMovies (updateMovie_settled oc s) = allMovies s"
  by (simp add: updateMovie_settled_def console_error_def fetchMovies_eq
      split: settled.splits option.splits)

lemma allMovies_deleteMovie_settled: "allMovies (deleteMovie_settled oc s) = allMovies s"
  by (simp add: deleteMovie_settled_def console_error_def fetchMovies_eq split: settled.splits)

lemma allMovies_editMoviePrompt:
  "allMovies (editMoviePrompt i ct cy cg t y g s) = allMovies s"
  by (cases t; cases y; cases g)
     (simp_all add: editMoviePrompt_cancelled editMoviePrompt_answered updateMovie_eq
        split: jsnum.splits)

text \<open>
  Claim C8. When a create, an update or a delete has succeeded, the script sends a
  \<^verbatim>\<open>GET\<close> of the whole collection; for a create the form is reset first, so the request
  leaves from a state whose form already has its default values. When that load
  succeeds the cache is the list received, whatever it was before. No other handler
  changes the cache: there is no local patching.
\<close>

theorem mutation_refetches:
  "(ok rc \<and> json rc \<noteq> None \<longrightarrow>
      form_submit_settled (Fulfilled rc) s = fetchMovies (form_reset s) \<and>
      form (form_submit_settled (Fulfilled rc) s) = form_defaults s) \<and>
   (ok ru \<and> json ru \<noteq> None \<longrightarrow> updateMovie_settled (Fulfilled ru) s = fetchMovies s) \<and>
   (ok rd \<longrightarrow> deleteMovie_settled (Fulfilled rd) s = fetchMovies s) \<and>
   fetchMovies s =
     s\<lparr>network := network s @ [\<lparr>req_method = GET, url = API_URL, headers = [], body = None\<rparr>]\<rparr> \<and>
   (ok rg \<and> json rg = Some movies \<longrightarrow>
      allMovies (fetchMovies_settled (Fulfilled rg) s) = movies) \<and>
   allMovies (form_submit s) = allMovies s \<and>
   allMovies (form_submit_settled oc s) = allMovies s \<and>
   allMovies (editMoviePrompt ident ct cy cg newTitle newYearStr newGenre s) = allMovies s \<and>
   allMovies (updateMovie ident d s) = allMovies s \<and>
   allMovies (updateMovie_settled ou s) = allMovies s \<and>
   allMovies (deleteMovie ident confirmed s) = allMovies s \<and>
   allMovies (deleteMovie_settled od s) = allMovies s"
  by (simp add: form_submit_settled_success updateMovie_settled_success
      deleteMovie_settled_success fetchMovies_settled_success renderMovies_eq
      allMovies_form_submit allMovies_form_submit_settled allMovies_updateMovie_settled
      allMovies_deleteMovie_settled allMovies_editMoviePrompt updateMovie_eq deleteMovie_def
      fetch_def)
    (simp add: fetchMovies_eq form_reset_def)

theorem mutation_refetches_witness:
  "ok \<lparr>status = 201, json = Some dune\<rparr> \<and>
   form (form_submit_settled (Fulfilled \<lparr>status = 201, json = Some dune\<rparr>) abcd_app) = empty_form \<and>
   network (form_submit_settled (Fulfilled \<lparr>status = 201, json = Some dune\<rparr>) abcd_app) =
     [\<lparr>req_method = GET, url = API_URL, headers = [], body = None\<rparr>] \<and>
   allMovies (form_submit_settled (Fulfilled \<lparr>status = 201, json = Some dune\<rparr>) abcd_app)
     = [dune, heat] \<and>
   network (updateMovie_settled (Fulfilled \<lparr>status = 200, json = Some dune\<rparr>) abcd_app) =
     [\<lparr>req_method = GET, url = API_URL, headers = [], body = None\<rparr>] \<and>
   ok \<lparr>status = 204, json = None :: unit option\<rparr> \<and>
   network (deleteMovie_settled (Fulfilled \<lparr>status = 204, json = None :: unit option\<rparr>) abcd_app) =
     [\<lparr>req_method = GET, url = API_URL, headers = [], body = None\<rparr>] \<and>
   allMovies (fetchMovies_settled (Fulfilled \<lparr>status = 200, json = Some [marked]\<rparr>) abcd_app)
     = [marked]"
  using mutation_refetches [of "\<lparr>status = 201, json = Some dune\<rparr>" abcd_app
      "\<lparr>status = 200, json = Some dune\<rparr>" "\<lparr>status = 204, json = None :: unit option\<rparr>"
      "\<lparr>status = 200, json = Some [marked]\<rparr>" "[marked]" "Rejected :: unit settled" 1
      "''Dune''" 2021 "''Sci-Fi''" None None None
      "\<lparr>data_title = ''Dune'', data_genre = ''Sci-Fi'', data_year = Num 2021\<rparr>"
      "Rejected :: unit settled" False "Rejected :: unit settled"]
  by (simp add: ok_samples abcd_app_def loaded_app_def init_app_def renderMovies_eq
      fetchMovies_eq form_reset_def)

end
